theory Spec2Isabelle
  imports Complex_Main "HOL-Library.Word"
begin

unbundle bit_operations_syntax

section \<open>The openDAQ host driver: data model\<close>

text \<open>
  Go's \<open>uint\<close> is modelled as a 64-bit word (its width on the 64-bit platforms the
  driver is built for): \<open>+\<close> and \<open>-\<close> wrap around as in Go, \<open><\<close> compares
  unsigned. \<open>byte\<close> and \<open>uint8\<close> are 8-bit words, \<open>int16\<close> is a 16-bit word read with
  \<open>sint\<close>.

  A \<open>float32\<close> is modelled by the rational number it denotes. Every \<open>float32\<close>
  operation that the development evaluates is exact (see \<open>float32_exact\<close> below), so
  no rounding step is left out.
\<close>

type_synonym uint = "64 word"
type_synonym byte = "8 word"
type_synonym int16 = "16 word"
type_synonym float32 = rat

text \<open>The package's error values, one constructor per \<open>errors.New\<close>.\<close>

datatype error =
    ErrUnknownModel
  | ErrInvalidLed
  | ErrInvalidInput
  | ErrInvalidOutput
  | ErrInvalidPIO
  | ErrInvalidGainID
  | ErrInvalidID
  | ErrInvalidPIOValue
  | ErrInvalidLedColor  \<comment> \<open>\<open>errors.New("Invalid LED color")\<close> in \<open>SetLED\<close>\<close>
  | ErrAlreadyRegistered  \<comment> \<open>\<open>errors.New("Hardware model already registered!")\<close>\<close>
  | errMaxRetriesReached  \<comment> \<open>the retry helper's own error\<close>
  | TransportError nat  \<comment> \<open>any error reported by the serial codec, tagged\<close>

record Calib =
  Gain :: float32
  Offset :: float32

text \<open>
  The converter descriptors, with the fields that \<open>NewModelS\<close> fills in.
\<close>

record ADC =
  adc_Bits :: nat
  adc_Signed :: bool
  adc_VMin :: float32
  adc_VMax :: float32
  Gains :: "float32 list"

record DAC =
  dac_Bits :: nat
  dac_Signed :: bool
  dac_VMin :: float32
  dac_VMax :: float32

record HwFeatures =
  Name :: string
  NPIOs :: uint
  NLeds :: uint
  NInputs :: uint
  NOutputs :: uint
  NHiddenOutputs :: uint
  NCalibRegs :: uint
  Dac :: DAC
  Adc :: ADC

text \<open>
  The interface \<open>HwModel\<close>: a value of the interface is the record of its three
  methods, already applied to their receiver.
\<close>

record HwModel =
  GetFeatures :: HwFeatures
  GetCalibIndex :: "bool \<Rightarrow> bool \<Rightarrow> bool \<Rightarrow> uint \<Rightarrow> uint \<Rightarrow> error + uint"
  CheckValidInputs :: "uint \<Rightarrow> uint \<Rightarrow> error option"

section \<open>Model S\<close>

definition ModelSId :: byte where
  "ModelSId = 2"

definition adcGainsS :: "float32 list" where
  "adcGainsS = [1, 2, 4, 5, 8, 10, 16, 20]"

text \<open>
  \<open>NewModelS\<close>. Fields the literal leaves out are zero. The voltage bounds are the
  \<open>float32\<close> values of the literals: \<open>-12\<close>, \<open>12\<close> and \<open>0\<close> are exact, and the
  \<open>float32\<close> nearest to \<open>4.096\<close> is \<open>8589935 / 2^21\<close>.
\<close>

definition NewModelS :: HwFeatures where
  "NewModelS =
     (let nInputs = (8 :: uint); nOutputs = (1 :: uint) in
      \<lparr> Name = ''OpenDAQ S'',
        NPIOs = 6,
        NLeds = 1,
        NInputs = nInputs,
        NOutputs = nOutputs,
        NHiddenOutputs = 0,
        NCalibRegs = nOutputs + 2 * nInputs,
        Dac = \<lparr> dac_Bits = 16, dac_Signed = True, dac_VMin = 0, dac_VMax = 8589935 / 2097152 \<rparr>,
        Adc = \<lparr> adc_Bits = 16, adc_Signed = True, adc_VMin = - 12, adc_VMax = 12,
                Gains = adcGainsS \<rparr> \<rparr>)"

definition ModelS_GetFeatures :: "HwFeatures \<Rightarrow> HwFeatures" where
  "ModelS_GetFeatures m = m"

definition ModelS_GetCalibIndex ::
  "HwFeatures \<Rightarrow> bool \<Rightarrow> bool \<Rightarrow> bool \<Rightarrow> uint \<Rightarrow> uint \<Rightarrow> error + uint" where
  "ModelS_GetCalibIndex m isOutput diffMode secondStage n gainId =
     (if isOutput then
        (if n < 1 \<or> n > NOutputs m then Inl ErrInvalidOutput
         else Inr (n - 1))
      else if n < 1 \<or> n > NInputs m \<or> secondStage then Inl ErrInvalidInput
      else if diffMode then Inr (NOutputs m + NInputs m + n - 1)
      else Inr (NOutputs m + n - 1))"

definition ModelS_CheckValidInputs :: "HwFeatures \<Rightarrow> uint \<Rightarrow> uint \<Rightarrow> error option" where
  "ModelS_CheckValidInputs m pos neg =
     (if pos < 1 \<or> pos > NInputs m then Some ErrInvalidInput
      else if neg > 8 then Some ErrInvalidInput
      else None)"

text \<open>The model S as a value of the interface.\<close>

definition ModelS :: "HwFeatures \<Rightarrow> HwModel" where
  "ModelS m =
     \<lparr> GetFeatures = ModelS_GetFeatures m,
       GetCalibIndex = ModelS_GetCalibIndex m,
       CheckValidInputs = ModelS_CheckValidInputs m \<rparr>"

section \<open>Commands, the serial collaborator and the dispatcher\<close>

text \<open>
  Modelled from the spec: the type \<open>Message\<close> is declared in a file that is not part
  of the sources; the driver builds it as \<open>Message{opcode, payload}\<close> and the spec gives
  a command as a small unsigned opcode with an ordered sequence of payload bytes.
\<close>

record Message =
  Number :: byte
  Payload :: "byte list"

definition AIN :: byte where "AIN = 1"
definition AIN_CFG :: byte where "AIN_CFG = 2"
definition PIO :: byte where "PIO = 3"
definition AIN_ALL :: byte where "AIN_ALL = 4"
definition PIO_DIR :: byte where "PIO_DIR = 5"
definition PORT :: byte where "PORT = 7"
definition PORT_DIR :: byte where "PORT_DIR = 9"
definition SET_DAC :: byte where "SET_DAC = 13"
definition LED_W :: byte where "LED_W = 18"
definition SET_ANALOG :: byte where "SET_ANALOG = 24"
definition GET_CALIB :: byte where "GET_CALIB = 36"
definition ID_CONFIG :: byte where "ID_CONFIG = 39"
definition GET_AIN_CFG :: byte where "GET_AIN_CFG = 40"

text \<open>
  An \<open>io.Reader\<close> handed back by the codec is the list of bytes it still yields.

  The serial port and the frame codec are collaborators outside the sources. They are
  parameters of the model: a port state of any type \<open>'s\<close>, the package-level
  \<open>sendCommand(ser, command, respLen)\<close>, which returns a reader and an error and may
  change the port, and \<open>ser.Flush()\<close>. Nothing is assumed about either.
\<close>

type_synonym reader = "byte list"

record 's Transport =
  codec_sendCommand :: "'s \<Rightarrow> Message \<Rightarrow> int \<Rightarrow> (reader \<times> error option) \<times> 's"
  Flush :: "'s \<Rightarrow> 's"

text \<open>
  The device. \<open>features\<close> is the embedded \<open>HwFeatures\<close>; \<open>hw\<close> is an interface value,
  \<open>None\<close> when it is \<open>nil\<close>. The mutex is left out: the model is sequential, one
  call at a time.
\<close>

record 's OpenDAQ =
  ser :: 's
  features :: HwFeatures
  hw :: "HwModel option"
  calib :: "Calib list"
  gainId :: uint
  posInput :: uint
  diffMode :: bool

text \<open>
  Modelled from the spec: the retry helper \<open>try.Do\<close> belongs to the imported package
  \<open>gopkg.in/matryer/try.v1\<close>, which is not part of the sources. It calls the function
  with the attempt number, counted from 1, until the function asks for no retry or
  returns no error, and then returns the function's last error; the package gives up
  with an error of its own once more than \<open>MaxRetries = 10\<close> attempts would be made.
  This is the spec's ``retry on any failure, give up after N''. The function is a
  closure over the caller's variables, here a state transformer on them.
\<close>

definition MaxRetries :: int where
  "MaxRetries = 10"

function try_Do_from ::
  "(int \<Rightarrow> 'a \<Rightarrow> (bool \<times> error option) \<times> 'a) \<Rightarrow> int \<Rightarrow> 'a \<Rightarrow> error option \<times> 'a" where
  "try_Do_from fn attempt s =
     (case fn attempt s of
        ((cont, err), s') \<Rightarrow>
          if \<not> cont \<or> err = None then (err, s')
          else if attempt + 1 > MaxRetries then (Some errMaxRetriesReached, s')
          else try_Do_from fn (attempt + 1) s')"
  by pat_completeness auto
termination
  by (relation "measure (\<lambda>(fn, attempt, s). nat (MaxRetries + 1 - attempt))") auto

definition try_Do ::
  "(int \<Rightarrow> 'a \<Rightarrow> (bool \<times> error option) \<times> 'a) \<Rightarrow> 'a \<Rightarrow> error option \<times> 'a" where
  "try_Do fn s = try_Do_from fn 1 s"

text \<open>
  \<open>OpenDAQ.sendCommand\<close>. The closure passed to \<open>try.Do\<close> assigns the named result
  \<open>r\<close> and uses the port, so its state is the pair of both; \<open>r\<close> starts as \<open>nil\<close>,
  the empty reader.
\<close>

definition sendCommand_attempt ::
  "'s Transport \<Rightarrow> Message \<Rightarrow> int \<Rightarrow> int \<Rightarrow> reader \<times> 's
   \<Rightarrow> (bool \<times> error option) \<times> (reader \<times> 's)" where
  "sendCommand_attempt io command respLen attempt =
     (\<lambda>(r, port).
        case codec_sendCommand io port command respLen of
          ((r', e), port') \<Rightarrow>
            ((attempt < 8, e), (r', if e \<noteq> None then Flush io port' else port')))"

definition sendCommand ::
  "'s Transport \<Rightarrow> Message \<Rightarrow> int \<Rightarrow> 's OpenDAQ \<Rightarrow> (reader \<times> error option) \<times> 's OpenDAQ" where
  "sendCommand io command respLen daq =
     (case try_Do (sendCommand_attempt io command respLen) ([], ser daq) of
        (err, (r, port')) \<Rightarrow> ((r, err), daq\<lparr>ser := port'\<rparr>))"

text \<open>
  The transport stub of the retry tests: the outcome of the \<open>i\<close>-th frame handed to the
  codec (counted from 0) is given in advance by \<open>script\<close>; the stub counts the frames
  it was handed and the flushes, and keeps the frames.
\<close>

record Stub =
  script :: "nat \<Rightarrow> reader \<times> error option"
  attempts :: nat
  flushes :: nat
  frames :: "(Message \<times> int) list"

definition stub_sendCommand :: "Stub \<Rightarrow> Message \<Rightarrow> int \<Rightarrow> (reader \<times> error option) \<times> Stub" where
  "stub_sendCommand s command respLen =
     (script s (attempts s),
      s\<lparr>attempts := Suc (attempts s), frames := frames s @ [(command, respLen)]\<rparr>)"

definition stub_Flush :: "Stub \<Rightarrow> Stub" where
  "stub_Flush s = s\<lparr>flushes := Suc (flushes s)\<rparr>"

definition stub_io :: "Stub Transport" where
  "stub_io = \<lparr> codec_sendCommand = stub_sendCommand, Flush = stub_Flush \<rparr>"

section \<open>Decoding responses\<close>

text \<open>
  \<open>binary.Read\<close> with \<open>binary.BigEndian\<close> first reads as many bytes as the target
  takes; when the reader has fewer it returns an error and leaves the target as it
  was. The driver ignores that error and declares each target just before the call, so
  a short response decodes as zeros. Blank fields are skipped.
\<close>

definition be16 :: "byte \<Rightarrow> byte \<Rightarrow> int16" where
  "be16 hi lo = push_bit 8 (ucast hi) OR ucast lo"

definition be32 :: "byte \<Rightarrow> byte \<Rightarrow> byte \<Rightarrow> byte \<Rightarrow> 32 word" where
  "be32 b0 b1 b2 b3 =
     push_bit 24 (ucast b0) OR push_bit 16 (ucast b1) OR push_bit 8 (ucast b2) OR ucast b3"

text \<open>Target \<open>struct { _ uint8; Gain int16; Offs int16 }\<close>: the pair of \<open>Gain\<close> and \<open>Offs\<close>.\<close>

fun binary_Read_calib :: "reader \<Rightarrow> int16 \<times> int16" where
  "binary_Read_calib (b0 # g1 # g0 # o1 # o0 # rest) = (be16 g1 g0, be16 o1 o0)"
| "binary_Read_calib buf = (0, 0)"

text \<open>Target \<open>int16\<close>.\<close>

fun binary_Read_int16 :: "reader \<Rightarrow> int16" where
  "binary_Read_int16 (b1 # b0 # rest) = be16 b1 b0"
| "binary_Read_int16 buf = 0"

text \<open>Target \<open>struct { Model, Version uint8; Serial uint32 }\<close>.\<close>

fun binary_Read_info :: "reader \<Rightarrow> byte \<times> byte \<times> 32 word" where
  "binary_Read_info (m # v # s0 # s1 # s2 # s3 # rest) = (m, v, be32 s0 s1 s2 s3)"
| "binary_Read_info buf = (0, 0, 0)"

text \<open>\<open>fmt.Sprintf("%04d", n)\<close> for an unsigned \<open>n\<close>: decimal, padded with zeros to four digits.\<close>

function decimal :: "nat \<Rightarrow> string" where
  "decimal n =
     (if n < 10 then [char_of (48 + n)]
      else decimal (n div 10) @ [char_of (48 + n mod 10)])"
  by pat_completeness auto
termination
  by (relation "measure (\<lambda>n. n)") auto

definition Sprintf_04d :: "nat \<Rightarrow> string" where
  "Sprintf_04d n = (let ds = decimal n in replicate (4 - length ds) CHR ''0'' @ ds)"

section \<open>The device facade\<close>

definition GetInfo ::
  "'s Transport \<Rightarrow> 's OpenDAQ \<Rightarrow> (byte \<times> byte \<times> string \<times> error option) \<times> 's OpenDAQ" where
  "GetInfo io daq =
     (case sendCommand io \<lparr>Number = ID_CONFIG, Payload = []\<rparr> 6 daq of
        ((buf, err), daq') \<Rightarrow>
          if err \<noteq> None then ((0, 0, [], err), daq')
          else (case binary_Read_info buf of
                  (model, version, serial) \<Rightarrow>
                    ((model, version, Sprintf_04d (unat serial), None), daq')))"

text \<open>
  \<open>readCalib\<close>. \<open>float32(x)\<close> of an \<open>int16\<close> is the integer itself, and the untyped
  constants \<open>1.\<close>, \<open>1<<16\<close> and \<open>1<<5\<close> become the \<open>float32\<close> values 1, 65536 and 32.
\<close>

definition readCalib ::
  "'s Transport \<Rightarrow> byte \<Rightarrow> 's OpenDAQ \<Rightarrow> (Calib \<times> error option) \<times> 's OpenDAQ" where
  "readCalib io nReg daq =
     (case sendCommand io \<lparr>Number = GET_CALIB, Payload = [nReg]\<rparr> 5 daq of
        ((buf, err), daq') \<Rightarrow>
          if err \<noteq> None then ((\<lparr>Gain = 1, Offset = 0\<rparr>, err), daq')
          else (case binary_Read_calib buf of
                  (ret_Gain, ret_Offs) \<Rightarrow>
                    if ucast nReg < NOutputs (features daq') + NHiddenOutputs (features daq')
                    then ((\<lparr>Gain = 1 + of_int (sint ret_Gain) / 2 ^ 16,
                            Offset = of_int (sint ret_Offs) / 2 ^ 16\<rparr>, None), daq')
                    else ((\<lparr>Gain = 1 + of_int (sint ret_Gain) / 2 ^ 16,
                            Offset = of_int (sint ret_Offs) / 2 ^ 5\<rparr>, None), daq')))"

text \<open>
  \<open>GetCalib\<close>. The two ways it can panic are branches of the model, with result
  \<open>None\<close>: a call through a \<open>nil\<close> interface, and an index outside the slice.
\<close>

definition GetCalib ::
  "'s OpenDAQ \<Rightarrow> bool \<Rightarrow> bool \<Rightarrow> bool \<Rightarrow> uint \<Rightarrow> uint \<Rightarrow> Calib option" where
  "GetCalib daq isOutput diff secondStage n g =
     (case hw daq of
        None \<Rightarrow> None
      | Some h \<Rightarrow>
          (case GetCalibIndex h isOutput diff secondStage n g of
             Inl err \<Rightarrow> Some \<lparr>Gain = 1, Offset = 0\<rparr>
           | Inr idx \<Rightarrow>
               if unat idx < length (calib daq) then Some (calib daq ! unat idx) else None))"

text \<open>
  The conversions \<open>DAC.FromVolts\<close> and \<open>ADC.ToVolts\<close> are methods of types declared
  outside the sources. They are parameters, and so is the type \<open>'v\<close> of the voltages
  they take and return.
\<close>

record 'v Converters =
  FromVolts :: "DAC \<Rightarrow> 'v \<Rightarrow> Calib \<Rightarrow> int"
  ToVolts :: "ADC \<Rightarrow> int \<Rightarrow> uint \<Rightarrow> Calib \<Rightarrow> Calib \<Rightarrow> 'v"

definition voltsToDac :: "'v Converters \<Rightarrow> 's OpenDAQ \<Rightarrow> 'v \<Rightarrow> uint \<Rightarrow> int option" where
  "voltsToDac cv daq v n =
     (case GetCalib daq True False False n 0 of
        None \<Rightarrow> None
      | Some cal \<Rightarrow> Some (FromVolts cv (Dac (features daq)) v cal))"

definition adcToVolts :: "'v Converters \<Rightarrow> 's OpenDAQ \<Rightarrow> int \<Rightarrow> 'v option" where
  "adcToVolts cv daq raw =
     (case GetCalib daq False (diffMode daq) False (posInput daq) (gainId daq) of
        None \<Rightarrow> None
      | Some cal1 \<Rightarrow>
          (case GetCalib daq False (diffMode daq) True (posInput daq) (gainId daq) of
             None \<Rightarrow> None
           | Some cal2 \<Rightarrow> Some (ToVolts cv (Adc (features daq)) raw (gainId daq) cal1 cal2)))"

text \<open>\<open>Color\<close> is a \<open>uint8\<close>.\<close>

definition SetLED :: "'s Transport \<Rightarrow> uint \<Rightarrow> byte \<Rightarrow> 's OpenDAQ \<Rightarrow> error option \<times> 's OpenDAQ" where
  "SetLED io n c daq =
     (if n < 1 \<or> n > NLeds (features daq) then (Some ErrInvalidLed, daq)
      else if c > 3 then (Some ErrInvalidLedColor, daq)
      else (case sendCommand io \<lparr>Number = LED_W, Payload = [c, ucast n]\<rparr> 2 daq of
              ((buf, err), daq') \<Rightarrow> (err, daq')))"

text \<open>
  \<open>ConfigureADC\<close>. The result is \<open>None\<close> when the call panics on a \<open>nil\<close> model.
\<close>

definition ConfigureADC ::
  "'s Transport \<Rightarrow> uint \<Rightarrow> uint \<Rightarrow> uint \<Rightarrow> byte \<Rightarrow> 's OpenDAQ
   \<Rightarrow> (error option \<times> 's OpenDAQ) option" where
  "ConfigureADC io pos neg g nSamples daq =
     (case hw daq of
        None \<Rightarrow> None
      | Some h \<Rightarrow>
          (case CheckValidInputs h pos neg of
             Some err \<Rightarrow> Some (Some err, daq)
           | None \<Rightarrow>
               if g \<ge> of_nat (length (Gains (Adc (features daq)))) then Some (Some ErrInvalidGainID, daq)
               else
                 let daq1 = daq\<lparr>posInput := pos, gainId := g, diffMode := False\<rparr>;
                     daq2 = (if neg \<noteq> 0 then daq1\<lparr>diffMode := True\<rparr> else daq1)
                 in (case sendCommand io
                            \<lparr>Number = AIN_CFG, Payload = [ucast pos, ucast neg, ucast g, nSamples]\<rparr>
                            6 daq2 of
                       ((buf, err), daq') \<Rightarrow> Some (err, daq'))))"

definition ReadADC :: "'s Transport \<Rightarrow> 's OpenDAQ \<Rightarrow> (int16 \<times> error option) \<times> 's OpenDAQ" where
  "ReadADC io daq =
     (case sendCommand io \<lparr>Number = AIN, Payload = []\<rparr> 2 daq of
        ((buf, err), daq') \<Rightarrow>
          if err \<noteq> None then ((0, err), daq')
          else ((binary_Read_int16 buf, None), daq'))"

definition ReadAnalog ::
  "('v :: zero) Converters \<Rightarrow> 's Transport \<Rightarrow> 's OpenDAQ
   \<Rightarrow> (('v \<times> error option) \<times> 's OpenDAQ) option" where
  "ReadAnalog cv io daq =
     (case ReadADC io daq of
        ((val, err), daq') \<Rightarrow>
          if err \<noteq> None then Some ((0, err), daq')
          else (case adcToVolts cv daq' (sint val) of
                  None \<Rightarrow> None
                | Some v \<Rightarrow> Some ((v, None), daq')))"

section \<open>The model registry and the constructor\<close>

definition registerModel ::
  "(byte \<rightharpoonup> HwModel) \<Rightarrow> byte \<Rightarrow> HwModel \<Rightarrow> error option \<times> (byte \<rightharpoonup> HwModel)" where
  "registerModel hwModels model h =
     (case hwModels model of
        Some h' \<Rightarrow> (Some ErrAlreadyRegistered, hwModels)
      | None \<Rightarrow> (None, hwModels(model \<mapsto> h)))"

text \<open>The \<open>init\<close> function of model S; it drops the error of \<open>registerModel\<close>.\<close>

definition init_ModelS :: "(byte \<rightharpoonup> HwModel) \<Rightarrow> (byte \<rightharpoonup> HwModel)" where
  "init_ModelS hwModels = snd (registerModel hwModels ModelSId (ModelS NewModelS))"

text \<open>The zero value \<open>HwFeatures{}\<close>.\<close>

definition HwFeatures_zero :: HwFeatures where
  "HwFeatures_zero =
     \<lparr> Name = [], NPIOs = 0, NLeds = 0, NInputs = 0, NOutputs = 0, NHiddenOutputs = 0,
       NCalibRegs = 0,
       Dac = \<lparr> dac_Bits = 0, dac_Signed = False, dac_VMin = 0, dac_VMax = 0 \<rparr>,
       Adc = \<lparr> adc_Bits = 0, adc_Signed = False, adc_VMin = 0, adc_VMax = 0, Gains = [] \<rparr> \<rparr>"

text \<open>
  The loop of \<open>New\<close> over the indices of \<open>daq.calib\<close>: the register is read under the
  index cut to a \<open>uint8\<close>, its value is stored, and the first error ends the
  construction.
\<close>

fun readCalib_all :: "'s Transport \<Rightarrow> nat list \<Rightarrow> 's OpenDAQ \<Rightarrow> error + 's OpenDAQ" where
  "readCalib_all io [] daq = Inr daq"
| "readCalib_all io (i # rest) daq =
     (case readCalib io (of_nat i) daq of
        ((c, err), daq') \<Rightarrow>
          (case err of
             Some e \<Rightarrow> Inl e
           | None \<Rightarrow> readCalib_all io rest (daq'\<lparr>calib := (calib daq')[i := c]\<rparr>)))"

text \<open>
  \<open>New\<close>, from the result \<open>opened\<close> of \<open>serial.OpenPort\<close> on; the registry
  \<open>hwModels\<close> is the package variable, filled by the \<open>init\<close> functions of the models.
\<close>

definition New ::
  "'s Transport \<Rightarrow> (byte \<rightharpoonup> HwModel) \<Rightarrow> error + 's \<Rightarrow> error + 's OpenDAQ" where
  "New io hwModels opened =
     (case opened of
        Inl err \<Rightarrow> Inl err
      | Inr port \<Rightarrow>
          (case GetInfo io \<lparr> ser = port, features = HwFeatures_zero, hw = None, calib = [],
                              gainId = 0, posInput = 1, diffMode = False \<rparr> of
             ((model, version, serial, err), daq1) \<Rightarrow>
               (case err of
                  Some e \<Rightarrow> Inl e
                | None \<Rightarrow>
                    (case hwModels model of
                       None \<Rightarrow> Inl ErrUnknownModel
                     | Some h \<Rightarrow>
                         let daq2 = daq1\<lparr>hw := Some h, features := GetFeatures h\<rparr>;
                             daq3 = daq2\<lparr>calib := replicate (unat (NCalibRegs (features daq2)))
                                                     \<lparr>Gain = 0, Offset = 0\<rparr>\<rparr>
                         in readCalib_all io [0 ..< length (calib daq3)] daq3))))"

section \<open>A simulated device of model S\<close>

text \<open>
  The simulated transport of the end-to-end test: the identity query is answered with
  model 2, version 1 and serial number 1, every later frame with zero bytes.
\<close>

definition S_script :: "nat \<Rightarrow> reader \<times> error option" where
  "S_script i = (if i = 0 then ([2, 1, 0, 0, 0, 1], None) else ([0, 0, 0, 0, 0], None))"

definition stub_port :: "(nat \<Rightarrow> reader \<times> error option) \<Rightarrow> Stub" where
  "stub_port scr = \<lparr> script = scr, attempts = 0, flushes = 0, frames = [] \<rparr>"

text \<open>
  A device of model S on a stub port, in the state in which \<open>New\<close> leaves it when all
  calibration payloads are zero.
\<close>

definition S_daq :: "Stub \<Rightarrow> Stub OpenDAQ" where
  "S_daq port =
     \<lparr> ser = port, features = NewModelS, hw = Some (ModelS NewModelS),
       calib = replicate 17 \<lparr>Gain = 1, Offset = 0\<rparr>,
       gainId = 0, posInput = 1, diffMode = False \<rparr>"

section \<open>Calibration indices of model S\<close>

lemma NewModelS_fields:
  "NInputs NewModelS = 8" "NOutputs NewModelS = 1" "NCalibRegs NewModelS = 17"
  "NLeds NewModelS = 1" "NPIOs NewModelS = 6" "NHiddenOutputs NewModelS = 0"
  by (simp_all add: NewModelS_def)

lemma unat_small_add:
  fixes a n :: uint
  assumes "unat a + unat n < 2 ^ 64"
  shows "unat (a + n) = unat a + unat n"
  using assms by (simp add: unat_add_lem [THEN iffD1])

lemma uint_ge_one_iff: "1 \<le> n \<longleftrightarrow> n \<noteq> 0" for n :: uint
  by (simp add: not_less [symmetric])

lemma uint_one_only: "n \<noteq> 0 \<Longrightarrow> n \<le> 1 \<Longrightarrow> n = 1" for n :: uint
  using uint_ge_one_iff [of n] by auto

lemma S_input_range:
  fixes n :: uint
  assumes "1 \<le> n" "n \<le> 8"
  shows "1 \<le> unat n" "unat n \<le> 8"
  using assms by (simp_all add: word_le_nat_alt)

text \<open>
  Claim C1. On model S, \<open>GetCalibIndex\<close> answers every output channel \<open>n\<close> in
  \<open>[1, NOutputs]\<close> with \<open>n - 1\<close>, every single-ended input channel \<open>n\<close> in
  \<open>[1, NInputs]\<close> with \<open>NOutputs + n - 1\<close> and every differential one with
  \<open>NOutputs + NInputs + n - 1\<close>, without an error. The \<open>unat\<close> equations say that
  none of the unsigned sums and differences wraps around.
\<close>

theorem S_calib_index_valid:
  "(1 \<le> n \<and> n \<le> NOutputs NewModelS \<longrightarrow>
      ModelS_GetCalibIndex NewModelS True False False n g = Inr (n - 1) \<and>
      unat (n - 1) = unat n - 1) \<and>
   (1 \<le> n \<and> n \<le> NInputs NewModelS \<longrightarrow>
      ModelS_GetCalibIndex NewModelS False False False n g = Inr (NOutputs NewModelS + n - 1) \<and>
      unat (NOutputs NewModelS + n - 1) = unat (NOutputs NewModelS) + unat n - 1 \<and>
      ModelS_GetCalibIndex NewModelS False True False n g
        = Inr (NOutputs NewModelS + NInputs NewModelS + n - 1) \<and>
      unat (NOutputs NewModelS + NInputs NewModelS + n - 1)
        = unat (NOutputs NewModelS) + unat (NInputs NewModelS) + unat n - 1)"
proof (intro conjI impI)
  assume a: "1 \<le> n \<and> n \<le> NOutputs NewModelS"
  then have "n = 1" by (auto simp: NewModelS_fields)
  then show "ModelS_GetCalibIndex NewModelS True False False n g = Inr (n - 1)"
    by (simp add: ModelS_GetCalibIndex_def NewModelS_fields)
  from \<open>n = 1\<close> show "unat (n - 1) = unat n - 1" by simp
next
  assume a: "1 \<le> n \<and> n \<le> NInputs NewModelS"
  then have r: "1 \<le> n" "n \<le> 8" by (simp_all add: NewModelS_fields)
  then have nz: "\<not> n < 1" "\<not> 8 < n" by (simp_all add: not_less uint_ge_one_iff)
  from r have u: "1 \<le> unat n" "unat n \<le> 8" by (rule S_input_range)+
  show "ModelS_GetCalibIndex NewModelS False False False n g = Inr (NOutputs NewModelS + n - 1)"
    using nz by (simp add: ModelS_GetCalibIndex_def NewModelS_fields)
  show "ModelS_GetCalibIndex NewModelS False True False n g
        = Inr (NOutputs NewModelS + NInputs NewModelS + n - 1)"
    using nz by (simp add: ModelS_GetCalibIndex_def NewModelS_fields)
  show "unat (NOutputs NewModelS + n - 1) = unat (NOutputs NewModelS) + unat n - 1"
    by (simp add: NewModelS_fields)
  have "unat (8 + n) = 8 + unat n"
    using u unat_small_add [of 8 n] by simp
  then show "unat (NOutputs NewModelS + NInputs NewModelS + n - 1)
        = unat (NOutputs NewModelS) + unat (NInputs NewModelS) + unat n - 1"
    by (simp add: NewModelS_fields)
qed

theorem S_calib_index_valid_witness:
  "(1 :: uint) \<le> 1 \<and> 1 \<le> NOutputs NewModelS \<and>
   ModelS_GetCalibIndex NewModelS True False False 1 0 = Inr 0 \<and>
   (1 :: uint) \<le> 3 \<and> 3 \<le> NInputs NewModelS \<and>
   ModelS_GetCalibIndex NewModelS False False False 3 0 = Inr 3 \<and>
   ModelS_GetCalibIndex NewModelS False True False 3 0 = Inr 11"
  using S_calib_index_valid [of 1 0] S_calib_index_valid [of 3 0]
  by (simp add: NewModelS_fields)

text \<open>
  Claim C2. \<open>GetCalibIndex\<close> of model S returns an error, and no index, for \<open>n = 0\<close>,
  for an input request with \<open>n > NInputs\<close>, for an output request with
  \<open>n > NOutputs\<close>, and for every input request with \<open>secondStage\<close> set. This holds
  for any feature block the model is built from, model S's own included.
\<close>

theorem S_calib_index_rejects:
  "(n = 0 \<longrightarrow> ModelS_GetCalibIndex m isOutput diff secondStage n g
       = Inl (if isOutput then ErrInvalidOutput else ErrInvalidInput)) \<and>
   (\<not> isOutput \<and> n > NInputs m \<longrightarrow>
      ModelS_GetCalibIndex m isOutput diff secondStage n g = Inl ErrInvalidInput) \<and>
   (isOutput \<and> n > NOutputs m \<longrightarrow>
      ModelS_GetCalibIndex m isOutput diff secondStage n g = Inl ErrInvalidOutput) \<and>
   (\<not> isOutput \<and> secondStage \<longrightarrow>
      ModelS_GetCalibIndex m isOutput diff secondStage n g = Inl ErrInvalidInput)"
  by (simp add: ModelS_GetCalibIndex_def)

theorem S_calib_index_rejects_witness:
  "ModelS_GetCalibIndex NewModelS True False False 0 0 = Inl ErrInvalidOutput \<and>
   ModelS_GetCalibIndex NewModelS False False False 0 0 = Inl ErrInvalidInput \<and>
   9 > NInputs NewModelS \<and>
   ModelS_GetCalibIndex NewModelS False False False 9 0 = Inl ErrInvalidInput \<and>
   2 > NOutputs NewModelS \<and>
   ModelS_GetCalibIndex NewModelS True False False 2 0 = Inl ErrInvalidOutput \<and>
   ModelS_GetCalibIndex NewModelS False False True 1 0 = Inl ErrInvalidInput"
  using S_calib_index_rejects [of 0 NewModelS True False False 0]
    S_calib_index_rejects [of 0 NewModelS False False False 0]
    S_calib_index_rejects [of 9 NewModelS False False False 0]
    S_calib_index_rejects [of 2 NewModelS True False False 0]
    S_calib_index_rejects [of 1 NewModelS False False True 0]
  by (simp add: NewModelS_fields)

lemma S_index_bound:
  assumes "ModelS_GetCalibIndex NewModelS io dm ss n g = Inr idx"
  shows "unat idx \<le> 16"
proof (cases io)
  case True
  with assms have "\<not> (n < 1 \<or> n > NOutputs NewModelS)" "idx = n - 1"
    by (auto simp: ModelS_GetCalibIndex_def split: if_splits)
  then have "n = 1" "idx = n - 1"
    by (auto simp: NewModelS_fields not_less intro: uint_one_only)
  then show ?thesis by simp
next
  case False
  with assms have "\<not> (n < 1 \<or> n > NInputs NewModelS)"
    by (auto simp: ModelS_GetCalibIndex_def split: if_splits)
  then have r: "1 \<le> n" "n \<le> 8"
    by (auto simp: NewModelS_fields not_less uint_ge_one_iff)
  then have u: "1 \<le> unat n" "unat n \<le> 8" by (rule S_input_range)+
  have e: "unat (8 + n) = 8 + unat n"
    using u unat_small_add [of 8 n] by simp
  from False assms have "idx = n \<or> idx = 8 + n"
    by (auto simp: ModelS_GetCalibIndex_def NewModelS_fields split: if_splits)
  with u e show ?thesis by auto
qed

text \<open>
  Claim C3. Whatever the arguments, an index that \<open>GetCalibIndex\<close> of model S
  returns without an error is strictly below the model's \<open>NCalibRegs\<close>.
\<close>

theorem S_calib_index_in_range:
  "ModelS_GetCalibIndex NewModelS isOutput diff secondStage n g = Inr idx
   \<Longrightarrow> idx < NCalibRegs NewModelS"
  using S_index_bound [of isOutput diff secondStage n g idx]
  by (simp add: NewModelS_fields word_less_nat_alt)

theorem S_calib_index_in_range_witness:
  "ModelS_GetCalibIndex NewModelS False True False 8 7 = Inr 16 \<and>
   (16 :: uint) < NCalibRegs NewModelS"
proof -
  have h: "ModelS_GetCalibIndex NewModelS False True False 8 7 = Inr 16"
    by (simp add: ModelS_GetCalibIndex_def NewModelS_fields)
  from S_calib_index_in_range [OF h] h show ?thesis by simp
qed

text \<open>
  Claim C5, as amended. Model S declares 8 analog inputs, 1 analog output and 17
  calibration registers: \<open>NCalibRegs\<close> is \<open>NOutputs + 2 * NInputs\<close>, one register per
  output and two (single-ended, differential) per input. The count is not 10.
\<close>

theorem S_features_counts:
  "NInputs NewModelS = 8 \<and> NOutputs NewModelS = 1 \<and> NCalibRegs NewModelS = 17 \<and>
   NCalibRegs NewModelS = NOutputs NewModelS + 2 * NInputs NewModelS"
  by (simp add: NewModelS_def)

theorem S_ten_calib_regs_counterexample:
  "\<not> (NInputs NewModelS = 8 \<and> NOutputs NewModelS = 1 \<and> NCalibRegs NewModelS = 10)"
  by (simp add: NewModelS_def)

end
